theory Spec2Isabelle
  imports
    Complex_Main
    "HOL-Library.Product_Lexorder"
    "HOL-Library.List_Lexorder"
    "HOL-Library.Char_ord"
    "HOL-Library.Log_Nat"
begin

section \<open>Calendar dates\<close>

text \<open>
  A \<^verbatim>\<open>datetime.date\<close> is the triple (year, month, day). With the lexicographic order
  on products, \<open><\<close> and \<open>\<le>\<close> on triples are the comparisons of Python dates and of the
  ISO date strings SQLite compares.
\<close>

type_synonym date = "int \<times> int \<times> int"

datatype error = ValueError | OverflowError | NotFound

definition is_leap :: "int \<Rightarrow> bool" where
  "is_leap y = (y mod 4 = 0 \<and> (y mod 100 \<noteq> 0 \<or> y mod 400 = 0))"

definition days_in_month :: "int \<Rightarrow> int \<Rightarrow> int" where
  "days_in_month y m =
     (if m = 2 then (if is_leap y then 29 else 28)
      else if m = 4 \<or> m = 6 \<or> m = 9 \<or> m = 11 then 30 else 31)"

text \<open>The dates a \<^verbatim>\<open>date\<close> object can hold: years 1 to 9999 of the proleptic calendar.\<close>

definition valid_date :: "date \<Rightarrow> bool" where
  "valid_date dt =
     (case dt of (y, m, d) \<Rightarrow>
        1 \<le> y \<and> y \<le> 9999 \<and> 1 \<le> m \<and> m \<le> 12 \<and> 1 \<le> d \<and> d \<le> days_in_month y m)"

text \<open>The constructor \<^verbatim>\<open>date(y, m, d)\<close>: it raises ValueError out of range.\<close>

definition py_date :: "int \<Rightarrow> int \<Rightarrow> int \<Rightarrow> error + date" where
  "py_date y m d = (if valid_date (y, m, d) then Inr (y, m, d) else Inl ValueError)"

text \<open>
  \<^verbatim>\<open>d - timedelta(days=n)\<close> steps back one calendar day n times; stepping before
  0001-01-01 raises OverflowError.
\<close>

definition prev_day :: "date \<Rightarrow> error + date" where
  "prev_day dt =
     (case dt of (y, m, d) \<Rightarrow>
        if 1 < d then Inr (y, m, d - 1)
        else if 1 < m then Inr (y, m - 1, days_in_month y (m - 1))
        else if 1 < y then Inr (y - 1, 12, 31)
        else Inl OverflowError)"

fun date_minus_days :: "date \<Rightarrow> nat \<Rightarrow> error + date" where
  "date_minus_days dt 0 = Inr dt"
| "date_minus_days dt (Suc n) =
     (case prev_day dt of Inl e \<Rightarrow> Inl e | Inr p \<Rightarrow> date_minus_days p n)"

text \<open>
  \<^verbatim>\<open>today.strftime("%Y-%m")\<close>: the year in four digits and the month in two. (For
  years before 1000 the padding of \<^verbatim>\<open>%Y\<close> depends on the platform.)
\<close>

definition digit :: "int \<Rightarrow> char" where
  "digit n = ''0123456789'' ! nat n"

definition strftime_Y_m :: "date \<Rightarrow> string" where
  "strftime_Y_m dt =
     (case dt of (y, m, d) \<Rightarrow>
        [digit (y div 1000 mod 10), digit (y div 100 mod 10), digit (y div 10 mod 10),
         digit (y mod 10)] @ ''-'' @ [digit (m div 10 mod 10), digit (m mod 10)])"

section \<open>Record store\<close>

text \<open>
  One record per model class, with the columns the aggregations read. A nullable column
  is an option. The Float columns of MilkRecord hold rationals (a finite double is one).
  The sums and means of the SQL aggregates are exact here; the alert loop of the
  dashboard, which computes in Python, rounds as floats do.
\<close>

record User =
  u_id :: int
  username :: string
  email :: string
  mobile :: string
  password_hash :: string
  role :: string

record Buffalo =
  b_id :: int
  tag_name :: string
  b_status :: string

record Worker =
  w_id :: int
  w_name :: string
  salary_per_month :: "int option"
  w_status :: string

record SalaryPayment =
  worker_id :: int
  sp_month :: string
  sp_amount :: int

record Expense =
  e_date :: date
  e_amount :: int

record MilkRecord =
  buffalo_id :: int
  mr_date :: date
  morning_litres :: "rat option"
  evening_litres :: "rat option"

text \<open>The database: each table is the list of its rows.\<close>

record db =
  users :: "User list"
  buffaloes :: "Buffalo list"
  workers :: "Worker list"
  salary_payments :: "SalaryPayment list"
  expenses :: "Expense list"
  milk_records :: "MilkRecord list"

section \<open>SQL aggregates and Python truthiness\<close>

definition coalesce :: "'a option \<Rightarrow> 'a \<Rightarrow> 'a" where
  "coalesce v d = (case v of None \<Rightarrow> d | Some x \<Rightarrow> x)"

text \<open>SUM, AVG, MIN and MAX over no rows are NULL.\<close>

definition sql_sum :: "'a::monoid_add list \<Rightarrow> 'a option" where
  "sql_sum xs = (if xs = [] then None else Some (sum_list xs))"

definition sql_avg :: "rat list \<Rightarrow> rat option" where
  "sql_avg xs = (if xs = [] then None else Some (sum_list xs / of_nat (length xs)))"

fun sql_min :: "'a::linorder list \<Rightarrow> 'a option" where
  "sql_min [] = None"
| "sql_min (x # xs) = (case sql_min xs of None \<Rightarrow> Some x | Some m \<Rightarrow> Some (min x m))"

fun sql_max :: "'a::linorder list \<Rightarrow> 'a option" where
  "sql_max [] = None"
| "sql_max (x # xs) = (case sql_max xs of None \<Rightarrow> Some x | Some m \<Rightarrow> Some (max x m))"

definition count_distinct :: "'a list \<Rightarrow> int" where
  "count_distinct xs = int (length (remdups xs))"

text \<open>\<^verbatim>\<open>x or d\<close> on a nullable number: None and 0 are both falsy.\<close>

definition py_or :: "'a::zero option \<Rightarrow> 'a \<Rightarrow> 'a" where
  "py_or v d = (case v of None \<Rightarrow> d | Some x \<Rightarrow> if x = 0 then d else x)"

text \<open>\<^verbatim>\<open>d.get(k, default)\<close>.\<close>

definition dict_get :: "('k \<rightharpoonup> 'v) \<Rightarrow> 'k \<Rightarrow> 'v \<Rightarrow> 'v" where
  "dict_get m k d = (case m k of None \<Rightarrow> d | Some v \<Rightarrow> v)"

section \<open>Double-precision arithmetic\<close>

text \<open>
  A finite double is the rational it denotes. \<open>as_double\<close> is the double nearest to a
  rational, ties to the even significand, with the gradual underflow of binary64 (53
  significant bits, least exponent -1022); it is the identity on doubles. Python's
  \<^verbatim>\<open>+\<close> and \<^verbatim>\<open>*\<close> on floats return the exact result rounded this way, and the literal
  \<^verbatim>\<open>0.7\<close> is \<open>as_double (7 / 10)\<close>. Infinities and NaN are not represented: litres are
  far from the largest double.
\<close>

definition pow2 :: "int \<Rightarrow> rat" where
  "pow2 k = (if 0 \<le> k then 2 ^ nat k else 1 / 2 ^ nat (- k))"

text \<open>For \<open>a > 0\<close>, the exponent \<open>e\<close> with \<open>2 ^ e \<le> a < 2 ^ (e + 1)\<close>.\<close>

definition binade :: "rat \<Rightarrow> int" where
  "binade a =
     (case quotient_of a of (p, q) \<Rightarrow>
        let k = bitlen p - bitlen q in if pow2 k \<le> a then k else k - 1)"

definition round_half_even :: "rat \<Rightarrow> int" where
  "round_half_even x =
     (let f = \<lfloor>x\<rfloor>; d = x - of_int f
      in if d < 1 / 2 then f else if 1 / 2 < d then f + 1 else if even f then f else f + 1)"

definition as_double :: "rat \<Rightarrow> rat" where
  "as_double x =
     (if x = 0 then 0
      else
        let a = \<bar>x\<bar>;
            e = max (binade a) (- 1022);
            ulp = pow2 (e - 52);
            n = round_half_even (a / ulp)
        in sgn x * of_int n * ulp)"

definition fl_add :: "rat \<Rightarrow> rat \<Rightarrow> rat" where
  "fl_add x y = as_double (x + y)"

definition fl_mul :: "rat \<Rightarrow> rat \<Rightarrow> rat" where
  "fl_mul x y = as_double (x * y)"

text \<open>A Float column read into Python: a float, or None.\<close>

definition float_column :: "rat option \<Rightarrow> rat option" where
  "float_column v = map_option as_double v"

section \<open>MilkRecord.total_litres\<close>

definition total_litres :: "MilkRecord \<Rightarrow> rat" where
  "total_litres r =
     (let m = py_or (morning_litres r) 0;
          e = py_or (evening_litres r) 0
      in m + e)"

section \<open>Dashboard\<close>

text \<open>
  The route \<^verbatim>\<open>dashboard\<close> reads the tables and the clock. The source asks for
  \<^verbatim>\<open>date.today()\<close> three times within one request; here they give the same day,
  \<open>today\<close>. The sections of the route are the definitions below, in the order of the
  source; \<open>dashboard\<close> assembles what is passed to the template. The display label
  \<^verbatim>\<open>month_label\<close> is left out, and so is the login check in front of the route.
\<close>

definition replace_day_1 :: "date \<Rightarrow> date" where
  "replace_day_1 dt = (case dt of (y, m, d) \<Rightarrow> (y, m, 1))"

definition next_month_first_of :: "date \<Rightarrow> error + date" where
  "next_month_first_of first_day =
     (case first_day of (y, m, d) \<Rightarrow>
        if m = 12 then py_date (y + 1) 1 1 else py_date y (m + 1) 1)"

definition salary_total_query :: "SalaryPayment list \<Rightarrow> string \<Rightarrow> int" where
  "salary_total_query sps month =
     coalesce (sql_sum (map sp_amount (filter (\<lambda>p. sp_month p = month) sps))) 0"

definition expense_total_query :: "Expense list \<Rightarrow> date \<Rightarrow> date \<Rightarrow> int" where
  "expense_total_query es first_day next_month_first =
     coalesce (sql_sum (map e_amount
       (filter (\<lambda>e. e_date e \<ge> first_day \<and> e_date e < next_month_first) es))) 0"

text \<open>
  The grouped query: one row (worker_id, total) for each worker_id that has a payment in
  the month. The dict comprehension keeps the last pair of a key.
\<close>

definition payments_query :: "SalaryPayment list \<Rightarrow> string \<Rightarrow> (int \<times> int) list" where
  "payments_query sps month =
     (let rows = filter (\<lambda>p. sp_month p = month) sps
      in map (\<lambda>wid. (wid,
                coalesce (sql_sum (map sp_amount (filter (\<lambda>p. worker_id p = wid) rows))) 0))
           (remdups (map worker_id rows)))"

definition dict_of :: "('k \<times> 'v) list \<Rightarrow> ('k \<rightharpoonup> 'v)" where
  "dict_of kvs = map_of (rev kvs)"

text \<open>\<^verbatim>\<open>not x\<close> on a nullable integer.\<close>

definition py_not :: "int option \<Rightarrow> bool" where
  "py_not v = (case v of None \<Rightarrow> True | Some x \<Rightarrow> x = 0)"

record due_row =
  worker :: Worker
  expected :: int
  paid :: int
  due :: int

fun due_workers_loop :: "(int \<rightharpoonup> int) \<Rightarrow> Worker list \<Rightarrow> due_row list" where
  "due_workers_loop payments_by_worker [] = []"
| "due_workers_loop payments_by_worker (w # ws) =
     (if py_not (salary_per_month w) then due_workers_loop payments_by_worker ws
      else
        let expected = py_or (salary_per_month w) 0;
            paid = py_or (Some (dict_get payments_by_worker (w_id w) 0)) 0;
            due = expected - paid
        in if due > 0
           then \<lparr>worker = w, expected = expected, paid = paid, due = due\<rparr>
                  # due_workers_loop payments_by_worker ws
           else due_workers_loop payments_by_worker ws)"

text \<open>
  The low-milk section. The grouped AVG query gives one row per buffalo_id that has a
  record in the window; \<^verbatim>\<open>avg_by_buffalo.get\<close> is None for the others. The loop
  works on Python floats: the average it reads is the double of the query's mean, the
  total of a record is the float sum of its two readings, and the test compares it with
  the float product of 0.7 and the average.
\<close>

definition avg_rows :: "MilkRecord list \<Rightarrow> date \<Rightarrow> date \<Rightarrow> (int \<times> rat option) list" where
  "avg_rows mrs start_period today =
     (let rows = filter (\<lambda>r. mr_date r \<ge> start_period \<and> mr_date r < today) mrs
      in map (\<lambda>b. (b,
                sql_avg (map (\<lambda>r. coalesce (morning_litres r) 0 + coalesce (evening_litres r) 0)
                           (filter (\<lambda>r. buffalo_id r = b) rows))))
           (remdups (map buffalo_id rows)))"

definition avg_by_buffalo :: "MilkRecord list \<Rightarrow> date \<Rightarrow> date \<Rightarrow> int \<Rightarrow> rat option" where
  "avg_by_buffalo mrs start_period today b =
     (case dict_of (avg_rows mrs start_period today) b of None \<Rightarrow> None | Some v \<Rightarrow> v)"

record low_milk_alert =
  buffalo :: "Buffalo option"
  today_total :: rat
  avg_total :: rat

text \<open>Line 352: \<^verbatim>\<open>(r.morning_litres or 0) + (r.evening_litres or 0)\<close> on floats.\<close>

definition today_total_of :: "MilkRecord \<Rightarrow> rat" where
  "today_total_of r =
     fl_add (py_or (float_column (morning_litres r)) 0)
            (py_or (float_column (evening_litres r)) 0)"

fun low_milk_loop :: "Buffalo list \<Rightarrow> (int \<Rightarrow> rat option) \<Rightarrow> MilkRecord list \<Rightarrow> low_milk_alert list"
  where
  "low_milk_loop bs avg_of [] = []"
| "low_milk_loop bs avg_of (r # rs) =
     (case avg_of (buffalo_id r) of
        None \<Rightarrow> low_milk_loop bs avg_of rs
      | Some v \<Rightarrow>
          let avg = as_double v;
              today_total = today_total_of r
          in if today_total < fl_mul (as_double (7 / 10)) avg
             then \<lparr>buffalo = find (\<lambda>b. b_id b = buffalo_id r) bs,
                   today_total = today_total, avg_total = avg\<rparr>
                    # low_milk_loop bs avg_of rs
             else low_milk_loop bs avg_of rs)"

text \<open>The \<^verbatim>\<open>try\<close> block: any exception leaves the alert list empty.\<close>

definition low_milk_section :: "db \<Rightarrow> date \<Rightarrow> low_milk_alert list" where
  "low_milk_section d today =
     (case date_minus_days today 7 of
        Inl e \<Rightarrow> []
      | Inr start_period \<Rightarrow>
          low_milk_loop (buffaloes d) (avg_by_buffalo (milk_records d) start_period today)
            (filter (\<lambda>r. mr_date r = today) (milk_records d)))"

definition milk_total_query :: "MilkRecord list \<Rightarrow> rat" where
  "milk_total_query rs =
     coalesce (sql_sum (map (\<lambda>r. coalesce (morning_litres r) 0 + coalesce (evening_litres r) 0) rs)) 0"

record dashboard_ctx =
  total_buffaloes :: nat
  active_buffaloes :: nat
  total_workers :: nat
  active_workers :: nat
  month_salary_total :: int
  month_expense_total :: int
  month_total_cost :: int
  month_str :: string
  due_workers :: "due_row list"
  due_count :: nat
  low_milk_alerts :: "low_milk_alert list"
  low_milk_count :: nat
  today_milk_total :: rat
  month_milk_total :: rat

definition dashboard :: "db \<Rightarrow> date \<Rightarrow> error + dashboard_ctx" where
  "dashboard d today =
     (let active_workers_list = filter (\<lambda>w. w_status w = ''active'') (workers d);
          month_s = strftime_Y_m today;
          salary_total = salary_total_query (salary_payments d) month_s;
          first_day = replace_day_1 today
      in case next_month_first_of first_day of
           Inl e \<Rightarrow> Inl e
         | Inr next_month_first \<Rightarrow>
             let expense_total = expense_total_query (expenses d) first_day next_month_first;
                 total_cost = py_or (Some salary_total) 0 + py_or (Some expense_total) 0;
                 payments_by_worker = dict_of (payments_query (salary_payments d) month_s);
                 due_list = due_workers_loop payments_by_worker active_workers_list;
                 alerts = low_milk_section d today;
                 first_day_milk = replace_day_1 today
             in (case next_month_first_of first_day_milk of
                  Inl e \<Rightarrow> Inl e
                | Inr next_month_first_milk \<Rightarrow>
                    Inr \<lparr>total_buffaloes = length (buffaloes d),
                         active_buffaloes =
                           length (filter (\<lambda>b. b_status b = ''active'') (buffaloes d)),
                         total_workers = length (workers d),
                         active_workers = length active_workers_list,
                         month_salary_total = salary_total,
                         month_expense_total = expense_total,
                         month_total_cost = total_cost,
                         month_str = month_s,
                         due_workers = due_list,
                         due_count = length due_list,
                         low_milk_alerts = alerts,
                         low_milk_count = length alerts,
                         today_milk_total =
                           milk_total_query (filter (\<lambda>r. mr_date r = today) (milk_records d)),
                         month_milk_total =
                           milk_total_query
                             (filter (\<lambda>r. mr_date r \<ge> first_day_milk
                                         \<and> mr_date r < next_month_first_milk)
                                (milk_records d))\<rparr>))"

section \<open>Salary report\<close>

text \<open>
  The route \<^verbatim>\<open>salary_report\<close>. \<open>month_arg\<close> is the query parameter (empty when absent).
  The active workers come ordered by name; the order of equal names is the database's.
  The list of distinct months and the display label are left out.
\<close>

definition status_of :: "int option \<Rightarrow> int \<Rightarrow> int \<Rightarrow> string" where
  "status_of salary expected_v paid_v =
     (if salary = None then ''Salary not set''
      else if expected_v = 0 then ''Salary set as 0''
      else if paid_v = 0 then ''Not Paid''
      else if paid_v < expected_v then ''Partially Paid''
      else ''Paid'')"

record report_row = due_row +
  status :: string

fun salary_report_loop ::
  "(int \<rightharpoonup> int) \<Rightarrow> Worker list \<Rightarrow> report_row list \<times> int \<times> int \<times> int
     \<Rightarrow> report_row list \<times> int \<times> int \<times> int" where
  "salary_report_loop payments_by_worker [] acc = acc"
| "salary_report_loop payments_by_worker (w # ws) (rows, total_expected, total_paid, total_due) =
     (let expected = py_or (salary_per_month w) 0;
          paid = py_or (Some (dict_get payments_by_worker (w_id w) 0)) 0;
          due = max (expected - paid) 0;
          st = status_of (salary_per_month w) expected paid
      in salary_report_loop payments_by_worker ws
           (rows @ [\<lparr>worker = w, expected = expected, paid = paid, due = due, status = st\<rparr>],
            total_expected + expected, total_paid + paid, total_due + due))"

record salary_report_ctx =
  sr_month :: string
  sr_rows :: "report_row list"
  total_expected :: int
  total_paid :: int
  total_due :: int

definition salary_report :: "db \<Rightarrow> date \<Rightarrow> string \<Rightarrow> salary_report_ctx" where
  "salary_report d today month_arg =
     (let month = (if month_arg = [] then strftime_Y_m today else month_arg);
          active = sort_key w_name (filter (\<lambda>w. w_status w = ''active'') (workers d));
          payments_by_worker = dict_of (payments_query (salary_payments d) month)
      in case salary_report_loop payments_by_worker active ([], 0, 0, 0) of
           (rows, te, tp, td) \<Rightarrow>
             \<lparr>sr_month = month, sr_rows = rows, total_expected = te, total_paid = tp,
              total_due = td\<rparr>)"

section \<open>Per-animal milk summary\<close>

text \<open>
  The route \<^verbatim>\<open>buffalo_milk_summary\<close>. \<^verbatim>\<open>get_or_404\<close> aborts with NotFound when no
  Buffalo row has the id.
\<close>

record milk_summary =
  ms_buffalo :: Buffalo
  first_date :: "date option"
  last_date :: "date option"
  ms_total_litres :: rat
  days_count :: int
  avg_per_day :: rat
  ms_records :: "MilkRecord list"

definition buffalo_milk_summary :: "db \<Rightarrow> int \<Rightarrow> error + milk_summary" where
  "buffalo_milk_summary d bid =
     (case find (\<lambda>b. b_id b = bid) (buffaloes d) of
        None \<Rightarrow> Inl NotFound
      | Some b \<Rightarrow>
          let rs = filter (\<lambda>r. buffalo_id r = bid) (milk_records d);
              first_d = sql_min (map mr_date rs);
              last_d = sql_max (map mr_date rs);
              total =
                coalesce (sql_sum (map (\<lambda>r. coalesce (morning_litres r) 0
                                              + coalesce (evening_litres r) 0) rs)) 0;
              n = count_distinct (map mr_date rs);
              avg = (if n \<noteq> 0 \<and> n > 0 then total / of_int n else 0)
          in Inr \<lparr>ms_buffalo = b, first_date = first_d, last_date = last_d,
                  ms_total_litres = total, days_count = n, avg_per_day = avg,
                  ms_records = sort_key mr_date rs\<rparr>)"

section \<open>Registration\<close>

text \<open>
  Strings are ASCII here: \<^verbatim>\<open>strip\<close>, \<^verbatim>\<open>lower\<close>, \<^verbatim>\<open>isalpha\<close> and \<^verbatim>\<open>isdigit\<close> are
  Python's on ASCII characters. \<^verbatim>\<open>generate_password_hash\<close> is the parameter \<open>gen_hash\<close>.
\<close>

definition is_space :: "char \<Rightarrow> bool" where
  "is_space c = (let n = (of_char c :: nat) in (9 \<le> n \<and> n \<le> 13) \<or> (28 \<le> n \<and> n \<le> 32))"

definition strip :: "string \<Rightarrow> string" where
  "strip s = rev (dropWhile is_space (rev (dropWhile is_space s)))"

definition lower_char :: "char \<Rightarrow> char" where
  "lower_char c =
     (let n = (of_char c :: nat) in if 65 \<le> n \<and> n \<le> 90 then char_of (n + 32) else c)"

definition lower :: "string \<Rightarrow> string" where
  "lower s = map lower_char s"

definition isalpha :: "char \<Rightarrow> bool" where
  "isalpha c = (let n = (of_char c :: nat) in (65 \<le> n \<and> n \<le> 90) \<or> (97 \<le> n \<and> n \<le> 122))"

definition isdigit :: "char \<Rightarrow> bool" where
  "isdigit c = (let n = (of_char c :: nat) in 48 \<le> n \<and> n \<le> 57)"

definition validate_password :: "string \<Rightarrow> bool \<times> string" where
  "validate_password password =
     (if length password < 8
      then (False, ''Password must be at least 8 characters long.'')
      else
        let has_letter = list_ex isalpha password;
            has_digit = list_ex isdigit password
        in if \<not> has_letter \<or> \<not> has_digit
           then (False, ''Password must contain at least one letter and one number.'')
           else (True, []))"

datatype http_method = GET | POST

datatype response = Redirect string | Render string

record register_form =
  f_username :: string
  f_email :: string
  f_mobile :: string
  f_password :: string
  f_confirm_password :: string

text \<open>A new row gets the next integer primary key.\<close>

definition next_user_id :: "User list \<Rightarrow> int" where
  "next_user_id us = (case sql_max (map u_id us) of None \<Rightarrow> 1 | Some m \<Rightarrow> m + 1)"

text \<open>
  \<open>register\<close> returns the database after the request, the flashed message (text and
  category) and the response. \<open>logged_in\<close> is \<^verbatim>\<open>session.get("user_id")\<close> being truthy.
\<close>

definition register ::
  "(string \<Rightarrow> string) \<Rightarrow> db \<Rightarrow> bool \<Rightarrow> http_method \<Rightarrow> register_form
     \<Rightarrow> db \<times> (string \<times> string) option \<times> response" where
  "register gen_hash d logged_in method form =
     (if logged_in then (d, None, Redirect ''dashboard'')
      else if method = POST then
        let uname = strip (f_username form);
            mail = lower (strip (f_email form));
            mob = strip (f_mobile form);
            password = f_password form;
            confirm_password = f_confirm_password form
        in if uname = [] \<or> mail = [] \<or> mob = [] \<or> password = []
           then (d, Some (''Username, email, mobile and password are required.'', ''error''),
                 Redirect ''register'')
           else if password \<noteq> confirm_password
           then (d, Some (''Passwords do not match.'', ''error''), Redirect ''register'')
           else if \<not> fst (validate_password password)
           then (d, Some (snd (validate_password password), ''error''), Redirect ''register'')
           else if find (\<lambda>u. username u = uname) (users d) \<noteq> None
           then (d, Some (''Username already taken.'', ''error''), Redirect ''register'')
           else if find (\<lambda>u. email u = mail) (users d) \<noteq> None
           then (d, Some (''Email already registered.'', ''error''), Redirect ''register'')
           else if find (\<lambda>u. mobile u = mob) (users d) \<noteq> None
           then (d, Some (''Mobile number already registered.'', ''error''),
                 Redirect ''register'')
           else
             let is_first_user = (length (users d) = 0);
                 new_role = (if is_first_user then ''admin'' else ''user'');
                 user = \<lparr>u_id = next_user_id (users d), username = uname, email = mail,
                         mobile = mob, password_hash = gen_hash password, role = new_role\<rparr>
             in (d\<lparr>users := users d @ [user]\<rparr>,
                 Some (''Account created successfully. Please login.'', ''success''),
                 Redirect ''login'')
      else (d, None, Render ''register.html''))"

text \<open>A run of registration posts by logged-out visitors, each on the database the last left.\<close>

fun register_posts :: "(string \<Rightarrow> string) \<Rightarrow> db \<Rightarrow> register_form list \<Rightarrow> db" where
  "register_posts gen_hash d [] = d"
| "register_posts gen_hash d (form # forms) =
     register_posts gen_hash (fst (register gen_hash d False POST form)) forms"

section \<open>Example data\<close>

text \<open>A small farm on 2025-12-15, used to run the model on concrete inputs.\<close>

definition example_db :: db where
  "example_db =
     \<lparr>users = [],
      buffaloes = [\<lparr>b_id = 1, tag_name = ''B1'', b_status = ''active''\<rparr>],
      workers =
        [\<lparr>w_id = 1, w_name = ''Ravi'', salary_per_month = Some 1000, w_status = ''active''\<rparr>,
         \<lparr>w_id = 2, w_name = ''Anil'', salary_per_month = None, w_status = ''active''\<rparr>,
         \<lparr>w_id = 3, w_name = ''Bala'', salary_per_month = Some 500, w_status = ''active''\<rparr>,
         \<lparr>w_id = 4, w_name = ''Zed'', salary_per_month = Some 500, w_status = ''left''\<rparr>],
      salary_payments =
        [\<lparr>worker_id = 1, sp_month = ''2025-12'', sp_amount = 400\<rparr>,
         \<lparr>worker_id = 3, sp_month = ''2025-12'', sp_amount = 600\<rparr>,
         \<lparr>worker_id = 1, sp_month = ''2025-11'', sp_amount = 1000\<rparr>],
      expenses =
        [\<lparr>e_date = (2025, 12, 31), e_amount = 50\<rparr>,
         \<lparr>e_date = (2026, 1, 1), e_amount = 70\<rparr>],
      milk_records =
        [\<lparr>buffalo_id = 1, mr_date = (2025, 12, 14), morning_litres = Some 10,
          evening_litres = None\<rparr>,
         \<lparr>buffalo_id = 1, mr_date = (2025, 12, 15), morning_litres = Some (69 / 10),
          evening_litres = None\<rparr>,
         \<lparr>buffalo_id = 2, mr_date = (2025, 12, 15), morning_litres = Some 1,
          evening_litres = None\<rparr>]\<rparr>"

text \<open>Two registration forms.\<close>

definition example_form :: register_form where
  "example_form =
     \<lparr>f_username = '' bob '', f_email = ''Bob@X.org'', f_mobile = ''123'',
      f_password = ''abcdefg1'', f_confirm_password = ''abcdefg1''\<rparr>"

definition example_form2 :: register_form where
  "example_form2 =
     \<lparr>f_username = ''al'', f_email = ''al@x.org'', f_mobile = ''124'',
      f_password = ''abcdefg1'', f_confirm_password = ''abcdefg1''\<rparr>"




text \<open>A worker on 1000 a month with one payment of -100 for December 2025.\<close>

definition example_negative_payment_db :: db where
  "example_negative_payment_db =
     example_db\<lparr>workers :=
         [\<lparr>w_id = 1, w_name = ''Ravi'', salary_per_month = Some 1000, w_status = ''active''\<rparr>],
       salary_payments := [\<lparr>worker_id = 1, sp_month = ''2025-12'', sp_amount = - 100\<rparr>]\<rparr>"

section \<open>Facts about the helpers\<close>

lemma py_or_zero: "py_or v 0 = coalesce v 0"
  by (simp add: py_or_def coalesce_def split: option.splits)

lemma py_or_Some_zero: "py_or (Some x) 0 = x"
  by (simp add: py_or_def)

lemma coalesce_sql_sum: "coalesce (sql_sum xs) 0 = sum_list xs"
  by (simp add: coalesce_def sql_sum_def)

lemma total_litres_coalesce:
  "coalesce (morning_litres r) 0 + coalesce (evening_litres r) 0 = total_litres r"
  by (simp add: total_litres_def py_or_zero)

text \<open>A dict built from one pair per key of a list holds exactly those keys.\<close>

lemma dict_of_grouped:
  "dict_of (map (\<lambda>k. (k, f k)) ks) k = (if k \<in> set ks then Some (f k) else None)"
proof -
  have "rev (map (\<lambda>k. (k, f k)) ks) = map (\<lambda>k. (k, f k)) (rev ks)"
    by (simp add: rev_map)
  then have "dict_of (map (\<lambda>k. (k, f k)) ks) = (Some \<circ> f) |` set (rev ks)"
    by (simp add: dict_of_def map_of_map_restrict)
  then show ?thesis
    by (simp add: restrict_map_def)
qed

lemma payments_lookup:
  "dict_of (payments_query sps key) wid =
     (if filter (\<lambda>p. worker_id p = wid \<and> sp_month p = key) sps = [] then None
      else Some (sum_list (map sp_amount
             (filter (\<lambda>p. worker_id p = wid \<and> sp_month p = key) sps))))"
proof -
  have mem: "wid \<in> set (remdups (map worker_id (filter (\<lambda>p. sp_month p = key) sps)))
        \<longleftrightarrow> filter (\<lambda>p. worker_id p = wid \<and> sp_month p = key) sps \<noteq> []"
    by (auto simp: filter_empty_conv)
  show ?thesis
    unfolding payments_query_def Let_def dict_of_grouped
    using mem by (simp add: coalesce_sql_sum conj_commute)
qed

text \<open>What \<^verbatim>\<open>payments_by_worker.get(w.id, 0) or 0\<close> is: the sum of the worker's payments.\<close>

lemma paid_lookup:
  "py_or (Some (dict_get (dict_of (payments_query sps key)) wid 0)) 0 =
     sum_list (map sp_amount (filter (\<lambda>p. worker_id p = wid \<and> sp_month p = key) sps))"
  by (simp add: py_or_Some_zero dict_get_def payments_lookup)

lemma due_workers_loop_eq:
  "due_workers_loop pbw ws =
     map (\<lambda>w. \<lparr>worker = w, expected = coalesce (salary_per_month w) 0,
                paid = py_or (Some (dict_get pbw (w_id w) 0)) 0,
                due = coalesce (salary_per_month w) 0 - py_or (Some (dict_get pbw (w_id w) 0)) 0\<rparr>)
       (filter (\<lambda>w. salary_per_month w \<noteq> None \<and> salary_per_month w \<noteq> Some 0
                    \<and> coalesce (salary_per_month w) 0 - py_or (Some (dict_get pbw (w_id w) 0)) 0 > 0) ws)"
  by (induction ws) (auto simp: py_not_def py_or_def coalesce_def Let_def split: option.splits)

lemma next_month_first_ok:
  assumes "valid_date (y, m, dd)" "(y, m, dd) < (9999, 12, 1)"
  shows "next_month_first_of (replace_day_1 (y, m, dd)) =
           Inr (if m = 12 then (y + 1, 1, 1) else (y, m + 1, 1))"
  using assms
  by (auto simp: next_month_first_of_def replace_day_1_def py_date_def valid_date_def
      days_in_month_def)

text \<open>
  On a valid date before 9999-12-01 the dashboard returns; this is what each field of
  the template context holds.
\<close>

lemma dashboard_returns:
  assumes "valid_date (y, m, dd)" "(y, m, dd) < (9999, 12, 1)"
  shows "\<exists>c. dashboard d (y, m, dd) = Inr c
     \<and> month_salary_total c = salary_total_query (salary_payments d) (strftime_Y_m (y, m, dd))
     \<and> month_expense_total c =
         expense_total_query (expenses d) (y, m, 1)
           (if m = 12 then (y + 1, 1, 1) else (y, m + 1, 1))
     \<and> month_total_cost c = py_or (Some (month_salary_total c)) 0
                             + py_or (Some (month_expense_total c)) 0
     \<and> month_str c = strftime_Y_m (y, m, dd)
     \<and> due_workers c =
         due_workers_loop (dict_of (payments_query (salary_payments d) (strftime_Y_m (y, m, dd))))
           (filter (\<lambda>w. w_status w = ''active'') (workers d))
     \<and> due_count c = length (due_workers c)
     \<and> low_milk_alerts c = low_milk_section d (y, m, dd)
     \<and> low_milk_count c = length (low_milk_alerts c)
     \<and> today_milk_total c =
         milk_total_query (filter (\<lambda>r. mr_date r = (y, m, dd)) (milk_records d))
     \<and> month_milk_total c =
         milk_total_query
           (filter (\<lambda>r. mr_date r \<ge> (y, m, 1)
                       \<and> mr_date r < (if m = 12 then (y + 1, 1, 1) else (y, m + 1, 1)))
              (milk_records d))"
proof -
  have rd: "replace_day_1 (y, m, dd) = (y, m, 1)"
    by (simp add: replace_day_1_def)
  have nm: "next_month_first_of (y, m, 1) = Inr (if m = 12 then (y + 1, 1, 1) else (y, m + 1, 1))"
    using next_month_first_ok [OF assms] by (simp only: rd)
  show ?thesis
    unfolding dashboard_def Let_def rd nm by simp
qed

lemma example_today_valid:
  "valid_date (2025, 12, 15) \<and> (2025, 12, 15) < ((9999, 12, 1) :: date)"
  by (simp add: valid_date_def days_in_month_def)

lemma example_key: "strftime_Y_m (2025, 12, 15) = ''2025-12''"
  by (simp add: strftime_Y_m_def digit_def)

text \<open>The report loop is a map over the workers, with the three running sums.\<close>

lemma salary_report_loop_eq:
  "salary_report_loop pbw ws (rows0, te, tp, td) =
     (rows0 @ map (\<lambda>w. \<lparr>worker = w, expected = coalesce (salary_per_month w) 0,
                    paid = py_or (Some (dict_get pbw (w_id w) 0)) 0,
                    due = max (coalesce (salary_per_month w) 0
                               - py_or (Some (dict_get pbw (w_id w) 0)) 0) 0,
                    status = status_of (salary_per_month w) (coalesce (salary_per_month w) 0)
                               (py_or (Some (dict_get pbw (w_id w) 0)) 0)\<rparr>) ws,
      te + sum_list (map (\<lambda>w. coalesce (salary_per_month w) 0) ws),
      tp + sum_list (map (\<lambda>w. py_or (Some (dict_get pbw (w_id w) 0)) 0) ws),
      td + sum_list (map (\<lambda>w. max (coalesce (salary_per_month w) 0
                               - py_or (Some (dict_get pbw (w_id w) 0)) 0) 0) ws))"
  by (induction ws arbitrary: rows0 te tp td) (simp_all add: Let_def py_or_zero)

lemma salary_report_eq:
  fixes d today month_arg
  defines "key \<equiv> (if month_arg = [] then strftime_Y_m today else month_arg)"
  defines "paid_of \<equiv> (\<lambda>w. sum_list (map sp_amount
            (filter (\<lambda>p. worker_id p = w_id w \<and> sp_month p = key) (salary_payments d))))"
  defines "active \<equiv> sort_key w_name (filter (\<lambda>w. w_status w = ''active'') (workers d))"
  shows "sr_month (salary_report d today month_arg) = key"
    and "sr_rows (salary_report d today month_arg) =
      map (\<lambda>w. \<lparr>worker = w, expected = coalesce (salary_per_month w) 0, paid = paid_of w,
                 due = max (coalesce (salary_per_month w) 0 - paid_of w) 0,
                 status = status_of (salary_per_month w) (coalesce (salary_per_month w) 0)
                            (paid_of w)\<rparr>) active"
    and "total_expected (salary_report d today month_arg) =
      sum_list (map (\<lambda>w. coalesce (salary_per_month w) 0) active)"
    and "total_paid (salary_report d today month_arg) = sum_list (map paid_of active)"
    and "total_due (salary_report d today month_arg) =
      sum_list (map (\<lambda>w. max (coalesce (salary_per_month w) 0 - paid_of w) 0) active)"
  unfolding salary_report_def Let_def salary_report_loop_eq paid_lookup key_def paid_of_def
    active_def
  by simp_all

text \<open>MIN, MAX and COUNT(DISTINCT) in terms of the set of values.\<close>

lemma sql_min_eq: "sql_min xs = (if xs = [] then None else Some (Min (set xs)))"
proof (induction xs)
  case Nil
  then show ?case by simp
next
  case (Cons x xs)
  then show ?case by (cases "xs = []") simp_all
qed

lemma sql_max_eq: "sql_max xs = (if xs = [] then None else Some (Max (set xs)))"
proof (induction xs)
  case Nil
  then show ?case by simp
next
  case (Cons x xs)
  then show ?case by (cases "xs = []") simp_all
qed

lemma count_distinct_card: "count_distinct xs = int (card (set xs))"
  by (simp add: count_distinct_def length_remdups_card_conv)

text \<open>A request either leaves the users table alone or appends one user.\<close>

lemma register_users:
  "users (fst (register gen_hash d logged_in method form)) = users d
   \<or> (\<exists>u. users (fst (register gen_hash d logged_in method form)) = users d @ [u]
          \<and> role u = (if users d = [] then ''admin'' else ''user'')
          \<and> fst (snd (register gen_hash d logged_in method form)) =
              Some (''Account created successfully. Please login.'', ''success''))"
  by (simp add: register_def Let_def)

lemma register_success_appends:
  "fst (snd (register gen_hash d logged_in method form)) =
      Some (''Account created successfully. Please login.'', ''success'')
   \<Longrightarrow> \<exists>u. users (fst (register gen_hash d logged_in method form)) = users d @ [u]
          \<and> role u = (if users d = [] then ''admin'' else ''user'')"
  by (auto simp: register_def Let_def validate_password_def split: if_splits)

lemma register_posts_roles:
  "\<exists>new. users (register_posts gen_hash d forms) = users d @ new
      \<and> (\<forall>u \<in> set (tl new). role u = ''user'')
      \<and> (new \<noteq> [] \<longrightarrow> role (hd new) = (if users d = [] then ''admin'' else ''user''))"
proof (induction forms arbitrary: d)
  case Nil
  show ?case by simp
next
  case (Cons form forms)
  let ?d1 = "fst (register gen_hash d False POST form)"
  from Cons.IH [of ?d1] obtain new where
    run: "users (register_posts gen_hash ?d1 forms) = users ?d1 @ new"
    and tl: "\<forall>u \<in> set (tl new). role u = ''user''"
    and hd: "new \<noteq> [] \<longrightarrow> role (hd new) = (if users ?d1 = [] then ''admin'' else ''user'')"
    by blast
  from register_users [of gen_hash d False POST form]
  show ?case
  proof
    assume same: "users ?d1 = users d"
    with run tl hd show ?thesis by auto
  next
    assume "\<exists>u. users ?d1 = users d @ [u]
        \<and> role u = (if users d = [] then ''admin'' else ''user'')
        \<and> fst (snd (register gen_hash d False POST form)) =
              Some (''Account created successfully. Please login.'', ''success'')"
    then obtain u where u: "users ?d1 = users d @ [u]"
      and ru: "role u = (if users d = [] then ''admin'' else ''user'')"
      by blast
    from u have ne: "users ?d1 \<noteq> []" by simp
    have all_user: "\<forall>v \<in> set new. role v = ''user''"
    proof (cases new)
      case Nil
      then show ?thesis by simp
    next
      case (Cons a as)
      with tl hd ne show ?thesis by auto
    qed
    have "users (register_posts gen_hash d (form # forms)) = users d @ (u # new)"
      using run u by simp
    moreover have "\<forall>v \<in> set (tl (u # new)). role v = ''user''"
      using all_user by simp
    moreover have "role (hd (u # new)) = (if users d = [] then ''admin'' else ''user'')"
      using ru by simp
    ultimately show ?thesis by blast
  qed
qed

text \<open>
  The average the dashboard looks up for an animal is the AVG over the animal's records
  in the window, and the alert loop is a filter and a map over today's records.
\<close>

lemma avg_by_buffalo_eq:
  "avg_by_buffalo mrs start today b =
     sql_avg (map total_litres
       (filter (\<lambda>r. buffalo_id r = b \<and> start \<le> mr_date r \<and> mr_date r < today) mrs))"
proof -
  let ?win = "filter (\<lambda>r. buffalo_id r = b \<and> start \<le> mr_date r \<and> mr_date r < today) mrs"
  have ff: "filter (\<lambda>r. buffalo_id r = b)
              (filter (\<lambda>r. start \<le> mr_date r \<and> mr_date r < today) mrs) = ?win"
    unfolding filter_filter by (rule filter_cong) auto
  have mem: "b \<in> set (remdups (map buffalo_id
                 (filter (\<lambda>r. start \<le> mr_date r \<and> mr_date r < today) mrs)))
        \<longleftrightarrow> ?win \<noteq> []"
    by (auto simp: filter_empty_conv)
  show ?thesis
    unfolding avg_by_buffalo_def avg_rows_def Let_def dict_of_grouped total_litres_coalesce ff
    using mem by (simp add: sql_avg_def)
qed









section \<open>Dashboard: salary due\<close>

text \<open>
  C1: on the dashboard, with the month key of today, the due list holds exactly the
  active workers whose salary_per_month is neither null nor zero and whose due is
  positive, where due = salary_per_month minus the sum of the amounts of the worker's
  payments of that month (0 without payments); the row carries that due, not floored.
  A worker with a null or zero salary is never in the list.
\<close>

theorem dashboard_due_workers:
  assumes "valid_date (y, m, dd)" and "(y, m, dd) < (9999, 12, 1)"
  shows "\<exists>c. dashboard d (y, m, dd) = Inr c \<and>
     (let key = strftime_Y_m (y, m, dd);
          paid_of = (\<lambda>w. sum_list (map sp_amount
            (filter (\<lambda>p. worker_id p = w_id w \<and> sp_month p = key) (salary_payments d))));
          salary_of = (\<lambda>w. case salary_per_month w of None \<Rightarrow> 0 | Some s \<Rightarrow> s)
      in month_str c = key \<and>
         due_workers c =
           map (\<lambda>w. \<lparr>worker = w, expected = salary_of w, paid = paid_of w,
                      due = salary_of w - paid_of w\<rparr>)
             (filter (\<lambda>w. w_status w = ''active'' \<and> salary_per_month w \<noteq> None
                          \<and> salary_per_month w \<noteq> Some 0 \<and> salary_of w - paid_of w > 0)
                (workers d)) \<and>
         (\<forall>row \<in> set (due_workers c).
            salary_per_month (worker row) = Some (expected row) \<and> expected row \<noteq> 0
            \<and> due row = expected row - paid row \<and> due row > 0))"
proof -
  obtain c where c: "dashboard d (y, m, dd) = Inr c"
    and ms: "month_str c = strftime_Y_m (y, m, dd)"
    and dw: "due_workers c =
         due_workers_loop (dict_of (payments_query (salary_payments d) (strftime_Y_m (y, m, dd))))
           (filter (\<lambda>w. w_status w = ''active'') (workers d))"
    using dashboard_returns [OF assms, of d] by blast
  have eq: "due_workers c =
      map (\<lambda>w. \<lparr>worker = w, expected = coalesce (salary_per_month w) 0,
             paid = sum_list (map sp_amount (filter (\<lambda>p. worker_id p = w_id w
                      \<and> sp_month p = strftime_Y_m (y, m, dd)) (salary_payments d))),
             due = coalesce (salary_per_month w) 0
                   - sum_list (map sp_amount (filter (\<lambda>p. worker_id p = w_id w
                      \<and> sp_month p = strftime_Y_m (y, m, dd)) (salary_payments d)))\<rparr>)
        (filter (\<lambda>w. w_status w = ''active'' \<and> salary_per_month w \<noteq> None
                     \<and> salary_per_month w \<noteq> Some 0
                     \<and> coalesce (salary_per_month w) 0
                         - sum_list (map sp_amount (filter (\<lambda>p. worker_id p = w_id w
                             \<and> sp_month p = strftime_Y_m (y, m, dd)) (salary_payments d))) > 0)
           (workers d))"
    unfolding dw due_workers_loop_eq paid_lookup
    by (simp add: conj_commute conj_left_commute cong: conj_cong)
  have rows: "\<forall>row \<in> set (due_workers c).
            salary_per_month (worker row) = Some (expected row) \<and> expected row \<noteq> 0
            \<and> due row = expected row - paid row \<and> due row > 0"
    unfolding eq by (auto simp: coalesce_def)
  show ?thesis
    using c ms eq rows by (auto simp: Let_def coalesce_def)
qed

text \<open>
  On the example data for 2025-12-15: Ravi (1000, paid 400) is due 600; Anil has no
  salary, Bala is overpaid (500, paid 600) and Zed has left.
\<close>

theorem dashboard_due_workers_witness:
  "valid_date (2025, 12, 15) \<and> (2025, 12, 15) < ((9999, 12, 1) :: date) \<and>
   (\<exists>c. dashboard example_db (2025, 12, 15) = Inr c \<and>
        due_workers c =
          [\<lparr>worker = \<lparr>w_id = 1, w_name = ''Ravi'', salary_per_month = Some 1000,
                       w_status = ''active''\<rparr>,
            expected = 1000, paid = 400, due = 600\<rparr>])"
proof -
  have v: "valid_date (2025, 12, 15)" and b: "(2025, 12, 15) < ((9999, 12, 1) :: date)"
    using example_today_valid by simp_all
  show ?thesis
    using dashboard_due_workers [OF v b, of example_db] v b
    by (auto simp: Let_def example_key example_db_def)
qed

section \<open>Salary report: status\<close>

text \<open>
  C2, as the code has it: the status is a total function of (salary_per_month, paid,
  expected) with five cases taken in order: a null salary gives "Salary not set"; else
  expected = 0 gives "Salary set as 0"; else paid = 0 gives "Not Paid"; else
  paid < expected, for a paid amount of either sign, gives "Partially Paid"; else (paid
  >= expected) gives "Paid". For every input exactly one of the five cases applies, the
  five statuses are distinct, and the report has one row for every active worker,
  carrying the status of that worker's salary, expected and paid amounts.
\<close>

theorem status_of_cases_in_order:
  "(let c1 = (salary = None);
        c2 = (salary \<noteq> None \<and> e = 0);
        c3 = (salary \<noteq> None \<and> e \<noteq> 0 \<and> p = 0);
        c4 = (salary \<noteq> None \<and> e \<noteq> 0 \<and> p \<noteq> 0 \<and> p < e);
        c5 = (salary \<noteq> None \<and> e \<noteq> 0 \<and> p \<noteq> 0 \<and> p \<ge> e)
    in (c1 \<longrightarrow> status_of salary e p = ''Salary not set'')
       \<and> (c2 \<longrightarrow> status_of salary e p = ''Salary set as 0'')
       \<and> (c3 \<longrightarrow> status_of salary e p = ''Not Paid'')
       \<and> (c4 \<longrightarrow> status_of salary e p = ''Partially Paid'')
       \<and> (c5 \<longrightarrow> status_of salary e p = ''Paid'')
       \<and> length (filter id [c1, c2, c3, c4, c5]) = 1)
   \<and> distinct [''Salary not set'', ''Salary set as 0'', ''Not Paid'', ''Partially Paid'', ''Paid'']
   \<and> (let key = (if month_arg = [] then strftime_Y_m today else month_arg);
           paid_of = (\<lambda>w. sum_list (map sp_amount
              (filter (\<lambda>q. worker_id q = w_id w \<and> sp_month q = key) (salary_payments d))));
           salary_of = (\<lambda>w. case salary_per_month w of None \<Rightarrow> 0 | Some s \<Rightarrow> s)
       in map (\<lambda>row. (worker row, status row)) (sr_rows (salary_report d today month_arg)) =
            map (\<lambda>w. (w, status_of (salary_per_month w) (salary_of w) (paid_of w)))
              (sort_key w_name (filter (\<lambda>w. w_status w = ''active'') (workers d))))"
proof -
  have cases: "(salary = None \<longrightarrow> status_of salary e p = ''Salary not set'')
       \<and> (salary \<noteq> None \<and> e = 0 \<longrightarrow> status_of salary e p = ''Salary set as 0'')
       \<and> (salary \<noteq> None \<and> e \<noteq> 0 \<and> p = 0 \<longrightarrow> status_of salary e p = ''Not Paid'')
       \<and> (salary \<noteq> None \<and> e \<noteq> 0 \<and> p \<noteq> 0 \<and> p < e \<longrightarrow> status_of salary e p = ''Partially Paid'')
       \<and> (salary \<noteq> None \<and> e \<noteq> 0 \<and> p \<noteq> 0 \<and> p \<ge> e \<longrightarrow> status_of salary e p = ''Paid'')"
    by (simp add: status_of_def)
  have one: "length (filter id [salary = None, salary \<noteq> None \<and> e = 0,
        salary \<noteq> None \<and> e \<noteq> 0 \<and> p = 0, salary \<noteq> None \<and> e \<noteq> 0 \<and> p \<noteq> 0 \<and> p < e,
        salary \<noteq> None \<and> e \<noteq> 0 \<and> p \<noteq> 0 \<and> p \<ge> e]) = 1"
    by (cases salary) auto
  have dist: "distinct [''Salary not set'', ''Salary set as 0'', ''Not Paid'', ''Partially Paid'', ''Paid'']"
    by simp
  have rows: "map (\<lambda>row. (worker row, status row)) (sr_rows (salary_report d today month_arg)) =
            map (\<lambda>w. (w, status_of (salary_per_month w)
                        (case salary_per_month w of None \<Rightarrow> 0 | Some s \<Rightarrow> s)
                        (sum_list (map sp_amount (filter (\<lambda>q. worker_id q = w_id w
                            \<and> sp_month q = (if month_arg = [] then strftime_Y_m today else month_arg))
                           (salary_payments d))))))
              (sort_key w_name (filter (\<lambda>w. w_status w = ''active'') (workers d)))"
    unfolding salary_report_eq by (simp add: comp_def coalesce_def)
  show ?thesis
    unfolding Let_def using cases one dist rows by blast
qed

text \<open>One input for each case, and the statuses of the report of the example data.\<close>

theorem status_of_cases_in_order_witness:
  "status_of None 0 0 = ''Salary not set''
   \<and> status_of (Some 0) 0 0 = ''Salary set as 0''
   \<and> status_of (Some 1000) 1000 0 = ''Not Paid''
   \<and> status_of (Some 1000) 1000 400 = ''Partially Paid''
   \<and> status_of (Some 1000) 1000 (- 100) = ''Partially Paid''
   \<and> status_of (Some 500) 500 600 = ''Paid''
   \<and> map status (sr_rows (salary_report example_db (2025, 12, 15) []))
       = [''Salary not set'', ''Paid'', ''Partially Paid'']"
proof -
  have rows: "map status (sr_rows (salary_report example_db (2025, 12, 15) []))
       = [''Salary not set'', ''Paid'', ''Partially Paid'']"
  proof -
    have "map snd (map (\<lambda>row. (worker row, status row))
              (sr_rows (salary_report example_db (2025, 12, 15) [])))
       = [''Salary not set'', ''Paid'', ''Partially Paid'']"
      using status_of_cases_in_order [where d = example_db and today = "(2025, 12, 15)"
          and month_arg = "[]" and salary = None and e = 0 and p = 0, THEN conjunct2, THEN conjunct2]
      unfolding Let_def
      by (simp add: example_key example_db_def status_of_def less_eq_char_def less_char_def)
    then show ?thesis by (simp add: comp_def)
  qed
  show ?thesis
    using status_of_cases_in_order [of None 0 0] status_of_cases_in_order [of "Some 0" 0 0]
      status_of_cases_in_order [of "Some 1000" 1000 0]
      status_of_cases_in_order [of "Some 1000" 1000 400]
      status_of_cases_in_order [of "Some 1000" 1000 "- 100"]
      status_of_cases_in_order [of "Some 500" 500 600] rows
    unfolding Let_def by simp
qed

text \<open>
  Where the claim's wording fails: the code accepts a negative payment amount. With a
  salary of 1000 and -100 paid, none of the five conditions as the claim words them
  holds (paid is not 0, not between 0 and expected, and not at least expected), and the
  report says "Partially Paid".
\<close>

theorem status_of_five_cases_counterexample:
  "status_of (Some 1000) 1000 (- 100) = ''Partially Paid''
   \<and> \<not> (0 < (- 100 :: int) \<and> (- 100 :: int) < 1000)
   \<and> \<not> ((1000 :: int) \<le> - 100)
   \<and> (- 100 :: int) \<noteq> 0 \<and> (1000 :: int) \<noteq> 0 \<and> Some (1000 :: int) \<noteq> None
   \<and> map paid (sr_rows (salary_report example_negative_payment_db (2025, 12, 15) [])) = [- 100]
   \<and> map expected (sr_rows (salary_report example_negative_payment_db (2025, 12, 15) []))
       = [1000]
   \<and> map status (sr_rows (salary_report example_negative_payment_db (2025, 12, 15) []))
       = [''Partially Paid'']"
  by code_simp

section \<open>Salary report: rows and totals\<close>

text \<open>
  C3: the report of a month has one row for every active worker, also for a worker
  with no salary configured (status "Salary not set", expected 0); the due of a row is
  max (expected - paid) 0; the three totals are the sums of expected, paid and that
  floored due over the rows.
\<close>

theorem salary_report_rows_and_totals:
  "(let rep = salary_report d today month_arg;
        key = (if month_arg = [] then strftime_Y_m today else month_arg)
    in map worker (sr_rows rep) =
         sort_key w_name (filter (\<lambda>w. w_status w = ''active'') (workers d))
       \<and> set (map worker (sr_rows rep)) = {w \<in> set (workers d). w_status w = ''active''}
       \<and> (\<forall>row \<in> set (sr_rows rep).
            expected row = (case salary_per_month (worker row) of None \<Rightarrow> 0 | Some s \<Rightarrow> s)
            \<and> paid row = sum_list (map sp_amount
                 (filter (\<lambda>p. worker_id p = w_id (worker row) \<and> sp_month p = key)
                    (salary_payments d)))
            \<and> due row = max (expected row - paid row) 0
            \<and> (salary_per_month (worker row) = None \<longrightarrow>
                  status row = ''Salary not set'' \<and> expected row = 0))
       \<and> total_expected rep = sum_list (map expected (sr_rows rep))
       \<and> total_paid rep = sum_list (map paid (sr_rows rep))
       \<and> total_due rep = sum_list (map due (sr_rows rep)))"
proof -
  have workers_eq: "map worker (sr_rows (salary_report d today month_arg)) =
         sort_key w_name (filter (\<lambda>w. w_status w = ''active'') (workers d))"
    unfolding salary_report_eq by (simp add: comp_def)
  have workers_set: "set (map worker (sr_rows (salary_report d today month_arg))) =
         {w \<in> set (workers d). w_status w = ''active''}"
    unfolding workers_eq by auto
  have rows: "\<forall>row \<in> set (sr_rows (salary_report d today month_arg)).
            expected row = (case salary_per_month (worker row) of None \<Rightarrow> 0 | Some s \<Rightarrow> s)
            \<and> paid row = sum_list (map sp_amount
                 (filter (\<lambda>p. worker_id p = w_id (worker row)
                     \<and> sp_month p = (if month_arg = [] then strftime_Y_m today else month_arg))
                    (salary_payments d)))
            \<and> due row = max (expected row - paid row) 0
            \<and> (salary_per_month (worker row) = None \<longrightarrow>
                  status row = ''Salary not set'' \<and> expected row = 0)"
    unfolding salary_report_eq
    by (clarsimp simp: coalesce_def status_of_def)
  have te: "total_expected (salary_report d today month_arg) =
      sum_list (map expected (sr_rows (salary_report d today month_arg)))"
    unfolding salary_report_eq by (simp add: comp_def)
  have tp: "total_paid (salary_report d today month_arg) =
      sum_list (map paid (sr_rows (salary_report d today month_arg)))"
    unfolding salary_report_eq by (simp add: comp_def)
  have td: "total_due (salary_report d today month_arg) =
      sum_list (map due (sr_rows (salary_report d today month_arg)))"
    unfolding salary_report_eq by (simp add: comp_def)
  show ?thesis
    unfolding Let_def using workers_eq workers_set rows te tp td by blast
qed

text \<open>
  The report of the example data for December 2025: Anil (no salary), Bala (overpaid,
  due floored to 0) and Ravi, in the order of their names.
\<close>

theorem salary_report_rows_and_totals_witness:
  "sr_rows (salary_report example_db (2025, 12, 15) []) =
     [\<lparr>worker = \<lparr>w_id = 2, w_name = ''Anil'', salary_per_month = None, w_status = ''active''\<rparr>,
       expected = 0, paid = 0, due = 0, status = ''Salary not set''\<rparr>,
      \<lparr>worker = \<lparr>w_id = 3, w_name = ''Bala'', salary_per_month = Some 500,
                  w_status = ''active''\<rparr>,
       expected = 500, paid = 600, due = 0, status = ''Paid''\<rparr>,
      \<lparr>worker = \<lparr>w_id = 1, w_name = ''Ravi'', salary_per_month = Some 1000,
                  w_status = ''active''\<rparr>,
       expected = 1000, paid = 400, due = 600, status = ''Partially Paid''\<rparr>]
   \<and> total_expected (salary_report example_db (2025, 12, 15) []) = 1500
   \<and> total_paid (salary_report example_db (2025, 12, 15) []) = 1000
   \<and> total_due (salary_report example_db (2025, 12, 15) []) = 600"
proof -
  have rows: "sr_rows (salary_report example_db (2025, 12, 15) []) =
     [\<lparr>worker = \<lparr>w_id = 2, w_name = ''Anil'', salary_per_month = None, w_status = ''active''\<rparr>,
       expected = 0, paid = 0, due = 0, status = ''Salary not set''\<rparr>,
      \<lparr>worker = \<lparr>w_id = 3, w_name = ''Bala'', salary_per_month = Some 500,
                  w_status = ''active''\<rparr>,
       expected = 500, paid = 600, due = 0, status = ''Paid''\<rparr>,
      \<lparr>worker = \<lparr>w_id = 1, w_name = ''Ravi'', salary_per_month = Some 1000,
                  w_status = ''active''\<rparr>,
       expected = 1000, paid = 400, due = 600, status = ''Partially Paid''\<rparr>]"
    unfolding salary_report_eq example_key
    by (simp add: example_db_def coalesce_def status_of_def less_eq_char_def less_char_def)
  show ?thesis
    using salary_report_rows_and_totals [of example_db "(2025, 12, 15)" "[]"]
    unfolding Let_def rows by simp
qed

section \<open>Dashboard: low-milk alerts\<close>








section \<open>Dashboard: monthly cost rollup\<close>

text \<open>
  C5: for the month of today, month_total_cost = month_salary_total +
  month_expense_total, where month_salary_total is the sum of the amounts of the
  payments whose month key is today's, month_expense_total is the sum of the amounts of
  the expenses dated from the first day of the month up to, not including, the first
  day of the next month, and each is 0 when no row matches.
\<close>

theorem dashboard_month_total_cost:
  assumes "valid_date (y, m, dd)" and "(y, m, dd) < (9999, 12, 1)"
  shows "\<exists>c. dashboard d (y, m, dd) = Inr c \<and>
     (let paid_rows = filter (\<lambda>p. sp_month p = strftime_Y_m (y, m, dd)) (salary_payments d);
          expense_rows = filter (\<lambda>e. (y, m, 1) \<le> e_date e
              \<and> e_date e < (if m = 12 then (y + 1, 1, 1) else (y, m + 1, 1))) (expenses d)
      in month_total_cost c = month_salary_total c + month_expense_total c
         \<and> month_salary_total c = sum_list (map sp_amount paid_rows)
         \<and> month_expense_total c = sum_list (map e_amount expense_rows)
         \<and> (paid_rows = [] \<longrightarrow> month_salary_total c = 0)
         \<and> (expense_rows = [] \<longrightarrow> month_expense_total c = 0))"
proof -
  obtain c where c: "dashboard d (y, m, dd) = Inr c"
    and st: "month_salary_total c = salary_total_query (salary_payments d) (strftime_Y_m (y, m, dd))"
    and et: "month_expense_total c =
         expense_total_query (expenses d) (y, m, 1)
           (if m = 12 then (y + 1, 1, 1) else (y, m + 1, 1))"
    and tc: "month_total_cost c = py_or (Some (month_salary_total c)) 0
                             + py_or (Some (month_expense_total c)) 0"
    using dashboard_returns [OF assms, of d] by blast
  have "month_total_cost c = month_salary_total c + month_expense_total c"
    using tc by (simp add: py_or_Some_zero)
  moreover have "month_salary_total c =
      sum_list (map sp_amount (filter (\<lambda>p. sp_month p = strftime_Y_m (y, m, dd)) (salary_payments d)))"
    using st by (simp add: salary_total_query_def coalesce_sql_sum)
  moreover have "month_expense_total c =
      sum_list (map e_amount (filter (\<lambda>e. (y, m, 1) \<le> e_date e
              \<and> e_date e < (if m = 12 then (y + 1, 1, 1) else (y, m + 1, 1))) (expenses d)))"
    using et by (simp add: expense_total_query_def coalesce_sql_sum)
  ultimately show ?thesis
    using c by (auto simp: Let_def)
qed

text \<open>
  On the example data the December totals are 1000 + 50 (the expense of 2026-01-01 is
  outside the month); with no payments and no expenses all three are 0.
\<close>

theorem dashboard_month_total_cost_witness:
  "valid_date (2025, 12, 15) \<and> (2025, 12, 15) < ((9999, 12, 1) :: date) \<and>
   (\<exists>c. dashboard example_db (2025, 12, 15) = Inr c \<and> month_salary_total c = 1000
        \<and> month_expense_total c = 50 \<and> month_total_cost c = 1050) \<and>
   (\<exists>c. dashboard (example_db\<lparr>salary_payments := [], expenses := []\<rparr>) (2025, 12, 15) = Inr c
        \<and> month_salary_total c = 0 \<and> month_expense_total c = 0 \<and> month_total_cost c = 0)"
proof -
  have v: "valid_date (2025, 12, 15)" and b: "(2025, 12, 15) < ((9999, 12, 1) :: date)"
    using example_today_valid by simp_all
  have "\<exists>c. dashboard example_db (2025, 12, 15) = Inr c \<and> month_salary_total c = 1000
        \<and> month_expense_total c = 50 \<and> month_total_cost c = 1050"
    using dashboard_month_total_cost [OF v b, of example_db]
    by (auto simp: Let_def example_key example_db_def)
  moreover have "\<exists>c. dashboard (example_db\<lparr>salary_payments := [], expenses := []\<rparr>) (2025, 12, 15) = Inr c
        \<and> month_salary_total c = 0 \<and> month_expense_total c = 0 \<and> month_total_cost c = 0"
    using dashboard_month_total_cost [OF v b, of "example_db\<lparr>salary_payments := [], expenses := []\<rparr>"]
    by (auto simp: Let_def)
  ultimately show ?thesis using v b by blast
qed

section \<open>Dashboard: the range of this month\<close>

text \<open>
  C6: the range of "this month" starts on the first day of today's month; for a today
  in December of year Y its exclusive upper bound is January 1 of Y + 1, and in any
  other month the first day of the next month of the same year. The month milk total
  and the month expense total are the sums over that range.
\<close>

theorem dashboard_month_range:
  assumes "valid_date (y, m, dd)" and "(y, m, dd) < (9999, 12, 1)"
  shows "replace_day_1 (y, m, dd) = (y, m, 1)
     \<and> (m = 12 \<longrightarrow> next_month_first_of (replace_day_1 (y, m, dd)) = Inr (y + 1, 1, 1))
     \<and> (m \<noteq> 12 \<longrightarrow> next_month_first_of (replace_day_1 (y, m, dd)) = Inr (y, m + 1, 1))
     \<and> (\<exists>c. dashboard d (y, m, dd) = Inr c \<and>
          (let upper = (if m = 12 then (y + 1, 1, 1) else (y, m + 1, 1))
           in month_milk_total c =
                sum_list (map total_litres
                  (filter (\<lambda>r. (y, m, 1) \<le> mr_date r \<and> mr_date r < upper) (milk_records d)))
              \<and> month_expense_total c =
                sum_list (map e_amount
                  (filter (\<lambda>e. (y, m, 1) \<le> e_date e \<and> e_date e < upper) (expenses d)))))"
proof -
  obtain c where c: "dashboard d (y, m, dd) = Inr c"
    and et: "month_expense_total c =
         expense_total_query (expenses d) (y, m, 1)
           (if m = 12 then (y + 1, 1, 1) else (y, m + 1, 1))"
    and mt: "month_milk_total c =
         milk_total_query
           (filter (\<lambda>r. mr_date r \<ge> (y, m, 1)
                       \<and> mr_date r < (if m = 12 then (y + 1, 1, 1) else (y, m + 1, 1)))
              (milk_records d))"
    using dashboard_returns [OF assms, of d] by blast
  have rd: "replace_day_1 (y, m, dd) = (y, m, 1)"
    by (simp add: replace_day_1_def)
  have nm: "next_month_first_of (replace_day_1 (y, m, dd)) =
      Inr (if m = 12 then (y + 1, 1, 1) else (y, m + 1, 1))"
    by (rule next_month_first_ok [OF assms])
  have milk: "month_milk_total c =
      sum_list (map total_litres (filter (\<lambda>r. (y, m, 1) \<le> mr_date r
         \<and> mr_date r < (if m = 12 then (y + 1, 1, 1) else (y, m + 1, 1))) (milk_records d)))"
    unfolding mt milk_total_query_def coalesce_sql_sum total_litres_coalesce ..
  have exp: "month_expense_total c =
      sum_list (map e_amount (filter (\<lambda>e. (y, m, 1) \<le> e_date e
         \<and> e_date e < (if m = 12 then (y + 1, 1, 1) else (y, m + 1, 1))) (expenses d)))"
    unfolding et expense_total_query_def coalesce_sql_sum ..
  show ?thesis
    using c rd nm milk exp by (auto simp: Let_def)
qed

text \<open>
  For 2025-12-15 the range is from 2025-12-01 up to 2026-01-01: the expense of
  2025-12-31 counts and the one of 2026-01-01 does not.
\<close>

theorem dashboard_month_range_witness:
  "valid_date (2025, 12, 15) \<and> (2025, 12, 15) < ((9999, 12, 1) :: date)
   \<and> replace_day_1 (2025, 12, 15) = (2025, 12, 1)
   \<and> next_month_first_of (replace_day_1 (2025, 12, 15)) = Inr (2026, 1, 1)
   \<and> (\<exists>c. dashboard example_db (2025, 12, 15) = Inr c
         \<and> month_milk_total c = 179 / 10 \<and> month_expense_total c = 50)"
proof -
  have v: "valid_date (2025, 12, 15)" and b: "(2025, 12, 15) < ((9999, 12, 1) :: date)"
    using example_today_valid by simp_all
  show ?thesis
    using dashboard_month_range [OF v b, of example_db] v b
    by (auto simp: Let_def example_db_def total_litres_def py_or_def)
qed

section \<open>Milk total of a record\<close>

text \<open>
  C7: for every MilkRecord the total is morning + evening with an absent reading counted
  as 0; morning None and evening 5.0 give 5.0, and both None give 0.
\<close>

theorem total_litres_null_as_zero:
  "total_litres r =
     (case morning_litres r of None \<Rightarrow> 0 | Some m \<Rightarrow> m) +
     (case evening_litres r of None \<Rightarrow> 0 | Some e \<Rightarrow> e)
   \<and> total_litres (r\<lparr>morning_litres := None, evening_litres := Some 5\<rparr>) = 5
   \<and> total_litres (r\<lparr>morning_litres := None, evening_litres := None\<rparr>) = 0"
  by (simp add: total_litres_def py_or_def split: option.splits)

section \<open>Per-animal milk summary\<close>

text \<open>
  C8: for the id of an animal, the summary returns the earliest and the latest record
  date, the total litres of the animal's records (a null reading as 0), the number of
  distinct record dates, and average = total / count. With no milk record it returns
  count 0, total 0, average 0 and null first and last dates: the division is guarded.
\<close>

theorem buffalo_milk_summary_guarded:
  assumes "bid \<in> set (map b_id (buffaloes d))"
  shows "\<exists>s. buffalo_milk_summary d bid = Inr s \<and>
     (let rs = filter (\<lambda>r. buffalo_id r = bid) (milk_records d);
          dates = map mr_date rs
      in first_date s = (if rs = [] then None else Some (Min (set dates)))
         \<and> last_date s = (if rs = [] then None else Some (Max (set dates)))
         \<and> ms_total_litres s = sum_list (map total_litres rs)
         \<and> days_count s = int (card (set dates))
         \<and> avg_per_day s =
             (if days_count s = 0 then 0 else ms_total_litres s / of_int (days_count s))
         \<and> (rs = [] \<longrightarrow> days_count s = 0 \<and> ms_total_litres s = 0 \<and> avg_per_day s = 0
                \<and> first_date s = None \<and> last_date s = None))"
proof -
  from assms obtain b where b: "find (\<lambda>b. b_id b = bid) (buffaloes d) = Some b"
    by (cases "find (\<lambda>b. b_id b = bid) (buffaloes d)") (auto simp: find_None_iff)
  show ?thesis
    unfolding buffalo_milk_summary_def b Let_def
    by (auto simp: sql_min_eq sql_max_eq count_distinct_card coalesce_sql_sum
        total_litres_coalesce filter_empty_conv)
qed

text \<open>
  Animal 1 of the example data has records on two days, 16.9 litres in all; with the
  milk table emptied the summary is all zero and the dates are null.
\<close>

theorem buffalo_milk_summary_guarded_witness:
  "1 \<in> set (map b_id (buffaloes example_db))
   \<and> (\<exists>s. buffalo_milk_summary example_db 1 = Inr s
        \<and> first_date s = Some (2025, 12, 14) \<and> last_date s = Some (2025, 12, 15)
        \<and> ms_total_litres s = 169 / 10 \<and> days_count s = 2 \<and> avg_per_day s = 169 / 20)
   \<and> 1 \<in> set (map b_id (buffaloes (example_db\<lparr>milk_records := []\<rparr>)))
   \<and> (\<exists>s. buffalo_milk_summary (example_db\<lparr>milk_records := []\<rparr>) 1 = Inr s
        \<and> first_date s = None \<and> last_date s = None
        \<and> ms_total_litres s = 0 \<and> days_count s = 0 \<and> avg_per_day s = 0)"
proof -
  have h1: "1 \<in> set (map b_id (buffaloes example_db))"
    by (simp add: example_db_def)
  have h2: "1 \<in> set (map b_id (buffaloes (example_db\<lparr>milk_records := []\<rparr>)))"
    by (simp add: example_db_def)
  have a: "\<exists>s. buffalo_milk_summary example_db 1 = Inr s
        \<and> first_date s = Some (2025, 12, 14) \<and> last_date s = Some (2025, 12, 15)
        \<and> ms_total_litres s = 169 / 10 \<and> days_count s = 2 \<and> avg_per_day s = 169 / 20"
    using buffalo_milk_summary_guarded [OF h1]
    by (auto simp: Let_def example_db_def total_litres_def py_or_def)
  have b: "\<exists>s. buffalo_milk_summary (example_db\<lparr>milk_records := []\<rparr>) 1 = Inr s
        \<and> first_date s = None \<and> last_date s = None
        \<and> ms_total_litres s = 0 \<and> days_count s = 0 \<and> avg_per_day s = 0"
    using buffalo_milk_summary_guarded [OF h2]
    by (auto simp: Let_def)
  show ?thesis using h1 h2 a b by blast
qed

section \<open>Registration\<close>

text \<open>
  C9: a successful registration appends one user, whose role is "admin" if and only if
  the users table was empty when the request ran, and "user" otherwise; a request that
  does not succeed leaves the table as it was. So in a run of registrations only the
  first user created on an empty table is an admin, and every later one is a user.
\<close>

theorem register_first_user_admin:
  "(let d' = fst (register gen_hash d logged_in method form);
        flashed = fst (snd (register gen_hash d logged_in method form))
    in (users d' = users d
        \<or> (\<exists>u. users d' = users d @ [u]
              \<and> (role u = ''admin'' \<longleftrightarrow> users d = [])
              \<and> (role u = ''user'' \<longleftrightarrow> users d \<noteq> [])))
       \<and> (flashed = Some (''Account created successfully. Please login.'', ''success'') \<longrightarrow>
            (\<exists>u. users d' = users d @ [u]
              \<and> (role u = ''admin'' \<longleftrightarrow> users d = [])
              \<and> (role u = ''user'' \<longleftrightarrow> users d \<noteq> []))))
   \<and> (\<exists>new. users (register_posts gen_hash d forms) = users d @ new
         \<and> (\<forall>u \<in> set (tl new). role u = ''user'')
         \<and> (new \<noteq> [] \<longrightarrow> (role (hd new) = ''admin'' \<longleftrightarrow> users d = [])
                          \<and> (role (hd new) = ''user'' \<longleftrightarrow> users d \<noteq> [])))"
proof -
  have one: "users (fst (register gen_hash d logged_in method form)) = users d
        \<or> (\<exists>u. users (fst (register gen_hash d logged_in method form)) = users d @ [u]
              \<and> (role u = ''admin'' \<longleftrightarrow> users d = [])
              \<and> (role u = ''user'' \<longleftrightarrow> users d \<noteq> []))"
    using register_users [of gen_hash d logged_in "method" form] by auto
  have ok: "fst (snd (register gen_hash d logged_in method form)) =
         Some (''Account created successfully. Please login.'', ''success'') \<longrightarrow>
            (\<exists>u. users (fst (register gen_hash d logged_in method form)) = users d @ [u]
              \<and> (role u = ''admin'' \<longleftrightarrow> users d = [])
              \<and> (role u = ''user'' \<longleftrightarrow> users d \<noteq> []))"
    using register_success_appends [of gen_hash d logged_in "method" form] by auto
  have run: "\<exists>new. users (register_posts gen_hash d forms) = users d @ new
         \<and> (\<forall>u \<in> set (tl new). role u = ''user'')
         \<and> (new \<noteq> [] \<longrightarrow> (role (hd new) = ''admin'' \<longleftrightarrow> users d = [])
                          \<and> (role (hd new) = ''user'' \<longleftrightarrow> users d \<noteq> []))"
    using register_posts_roles [of gen_hash d forms] by auto
  show ?thesis
    unfolding Let_def using one ok run by blast
qed

text \<open>
  On the example data (no users yet) the first form registers bob as admin; posting it
  again is refused (username taken), and the next visitor becomes a user.
\<close>

lemma example_register:
  "register id example_db False POST example_form =
     (example_db\<lparr>users := [\<lparr>u_id = 1, username = ''bob'', email = ''bob@x.org'',
         mobile = ''123'', password_hash = ''abcdefg1'', role = ''admin''\<rparr>]\<rparr>,
      Some (''Account created successfully. Please login.'', ''success''), Redirect ''login'')"
  by code_simp

lemma example_register_posts:
  "map role (users (register_posts id example_db [example_form, example_form, example_form2])) =
     [''admin'', ''user'']"
  by code_simp

theorem register_first_user_admin_witness:
  "fst (snd (register id example_db False POST example_form)) =
      Some (''Account created successfully. Please login.'', ''success'')
   \<and> map role (users (fst (register id example_db False POST example_form))) = [''admin'']
   \<and> map role (users (register_posts id example_db [example_form, example_form, example_form2]))
       = [''admin'', ''user'']"
proof -
  have flashed: "fst (snd (register id example_db False POST example_form)) =
      Some (''Account created successfully. Please login.'', ''success'')"
    by (simp add: example_register)
  have empty: "users example_db = []"
    by (simp add: example_db_def)
  have "map role (users (fst (register id example_db False POST example_form))) = [''admin'']"
    using register_first_user_admin [of id example_db False POST example_form "[]"] flashed empty
    unfolding Let_def by auto
  with flashed example_register_posts show ?thesis by simp
qed

section \<open>The seven-day average\<close>

text \<open>
  C10: the average the low-yield detector uses for an animal is the arithmetic mean
  over the milk records present in the window from today - 7 days up to, not
  including, today: the sum of their totals divided by their number, not by 7. Without
  such a record there is no average, and with a single record of total T it is T.
\<close>

theorem avg_by_buffalo_mean_of_present:
  "(let window = filter (\<lambda>r. buffalo_id r = b \<and> start \<le> mr_date r \<and> mr_date r < today) mrs
    in avg_by_buffalo mrs start today b =
         (if window = [] then None
          else Some (sum_list (map total_litres window) / of_nat (length window)))
       \<and> (\<forall>r. window = [r] \<longrightarrow> avg_by_buffalo mrs start today b = Some (total_litres r)))
   \<and> (date_minus_days today 7 = Inr start \<longrightarrow>
        low_milk_section d today =
          low_milk_loop (buffaloes d) (avg_by_buffalo (milk_records d) start today)
            (filter (\<lambda>r. mr_date r = today) (milk_records d)))"
proof -
  have mean: "(let window =
          filter (\<lambda>r. buffalo_id r = b \<and> start \<le> mr_date r \<and> mr_date r < today) mrs
    in avg_by_buffalo mrs start today b =
         (if window = [] then None
          else Some (sum_list (map total_litres window) / of_nat (length window)))
       \<and> (\<forall>r. window = [r] \<longrightarrow> avg_by_buffalo mrs start today b = Some (total_litres r)))"
    by (simp add: Let_def avg_by_buffalo_eq sql_avg_def)
  have used: "date_minus_days today 7 = Inr start \<longrightarrow>
        low_milk_section d today =
          low_milk_loop (buffaloes d) (avg_by_buffalo (milk_records d) start today)
            (filter (\<lambda>r. mr_date r = today) (milk_records d))"
    by (simp add: low_milk_section_def)
  show ?thesis using mean used by (rule conjI)
qed

text \<open>
  One record of 10 litres averages 10; records of 8 and 12 litres on two of the seven
  days average 10 (a record of the day before the window is not counted); no record,
  no average.
\<close>

theorem avg_by_buffalo_mean_of_present_witness:
  "avg_by_buffalo (milk_records example_db) (2025, 12, 8) (2025, 12, 15) 1 = Some 10
   \<and> avg_by_buffalo
        [\<lparr>buffalo_id = 1, mr_date = (2025, 12, 10), morning_litres = Some 8,
          evening_litres = None\<rparr>,
         \<lparr>buffalo_id = 1, mr_date = (2025, 12, 12), morning_litres = Some 5,
          evening_litres = Some 7\<rparr>,
         \<lparr>buffalo_id = 1, mr_date = (2025, 12, 7), morning_litres = Some 30,
          evening_litres = None\<rparr>] (2025, 12, 8) (2025, 12, 15) 1 = Some 10
   \<and> avg_by_buffalo (milk_records example_db) (2025, 12, 8) (2025, 12, 15) 2 = None"
  using avg_by_buffalo_mean_of_present
      [where b = 1 and start = "(2025, 12, 8)" and mrs = "milk_records example_db"
         and today = "(2025, 12, 15)" and d = example_db]
    avg_by_buffalo_mean_of_present
      [where b = 1 and start = "(2025, 12, 8)" and today = "(2025, 12, 15)" and d = example_db
         and mrs = "[\<lparr>buffalo_id = 1, mr_date = (2025, 12, 10), morning_litres = Some 8,
          evening_litres = None\<rparr>,
         \<lparr>buffalo_id = 1, mr_date = (2025, 12, 12), morning_litres = Some 5,
          evening_litres = Some 7\<rparr>,
         \<lparr>buffalo_id = 1, mr_date = (2025, 12, 7), morning_litres = Some 30,
          evening_litres = None\<rparr>]"]
    avg_by_buffalo_mean_of_present
      [where b = 2 and start = "(2025, 12, 8)" and mrs = "milk_records example_db"
         and today = "(2025, 12, 15)" and d = example_db]
  by (simp add: Let_def example_db_def total_litres_def py_or_def)

end
